theory Spec2Isabelle
  imports Main "HOL-Library.Word"
begin

section \<open>JavaScript values of the registration backend\<close>

text \<open>
  A JavaScript string is a sequence of 16-bit code units. The values that reach the
  handlers of \<^verbatim>\<open>server.js\<close> come from the JSON body parser: \<^verbatim>\<open>undefined\<close> for a
  property the body does not have, and otherwise null, a boolean, a number, a string,
  an array or an object. Numbers are modelled by integers: the handlers only test a
  number for being zero and pass it on. An object is the list of its own properties in
  enumeration order.
\<close>

type_synonym code_unit = "16 word"
type_synonym js_string = "code_unit list"

datatype js_value =
    Undefined
  | Null
  | Bool bool
  | Num int
  | Str js_string
  | Arr "js_value list"
  | Obj "(js_string \<times> js_value) list"

text \<open>A string literal of the source, as code units (the literals are ASCII).\<close>

definition lit :: "string \<Rightarrow> js_string" where
  "lit s = map (\<lambda>c. of_nat (of_char c)) s"

text \<open>\<^verbatim>\<open>ToBoolean\<close>: what \<^verbatim>\<open>!x\<close>, \<^verbatim>\<open>&&\<close>, \<^verbatim>\<open>||\<close> and \<^verbatim>\<open>if\<close> test.\<close>

fun to_boolean :: "js_value \<Rightarrow> bool" where
  "to_boolean Undefined = False"
| "to_boolean Null = False"
| "to_boolean (Bool b) = b"
| "to_boolean (Num n) = (n \<noteq> 0)"
| "to_boolean (Str s) = (s \<noteq> [])"
| "to_boolean (Arr _) = True"
| "to_boolean (Obj _) = True"

text \<open>\<^verbatim>\<open>v === ''\<close>: strict equality with the empty string literal.\<close>

definition is_empty_string :: "js_value \<Rightarrow> bool" where
  "is_empty_string v = (v = Str [])"

text \<open>
  The request body is the object that \<^verbatim>\<open>express.json()\<close> parsed, given by its own
  properties. Reading a property, as the destructuring
  \<^verbatim>\<open>const { fullName, ... } = req.body\<close> does, gives \<^verbatim>\<open>undefined\<close> when the body has
  no such property.
\<close>

type_synonym request_body = "(js_string \<times> js_value) list"

definition get_prop :: "request_body \<Rightarrow> string \<Rightarrow> js_value" where
  "get_prop b k = (case map_of b (lit k) of None \<Rightarrow> Undefined | Some v \<Rightarrow> v)"

section \<open>\<^verbatim>\<open>JSON.stringify\<close>\<close>

text \<open>
  The handler serialises the \<^verbatim>\<open>organs\<close> value with \<^verbatim>\<open>JSON.stringify(organs)\<close>, with
  neither a replacer nor an indentation. The definitions follow the language
  standard's \<^verbatim>\<open>SerializeJSONProperty\<close> and \<^verbatim>\<open>QuoteJSONString\<close>: a string is quoted
  code point by code point, the characters with a short escape, the other control
  characters and the unpaired surrogates as \<^verbatim>\<open>\uXXXX\<close> with lower-case hexadecimal
  digits, everything else unchanged. A leading surrogate that is followed by a
  trailing surrogate forms one code point with it.
\<close>

definition hex_digit :: "nat \<Rightarrow> code_unit" where
  "hex_digit n = (if n < 10 then of_nat (48 + n) else of_nat (87 + n))"

definition unicode_escape :: "code_unit \<Rightarrow> js_string" where
  "unicode_escape c =
     (let n = unat c
      in [0x5C, 0x75, hex_digit (n div 4096), hex_digit (n div 256 mod 16),
          hex_digit (n div 16 mod 16), hex_digit (n mod 16)])"

definition is_leading_surrogate :: "code_unit \<Rightarrow> bool" where
  "is_leading_surrogate c = (0xD800 \<le> c \<and> c \<le> 0xDBFF)"

definition is_trailing_surrogate :: "code_unit \<Rightarrow> bool" where
  "is_trailing_surrogate c = (0xDC00 \<le> c \<and> c \<le> 0xDFFF)"

definition quote_code_point :: "code_unit \<Rightarrow> js_string" where
  "quote_code_point c =
     (if c = 0x08 then [0x5C, 0x62]
      else if c = 0x09 then [0x5C, 0x74]
      else if c = 0x0A then [0x5C, 0x6E]
      else if c = 0x0C then [0x5C, 0x66]
      else if c = 0x0D then [0x5C, 0x72]
      else if c = 0x22 then [0x5C, 0x22]
      else if c = 0x5C then [0x5C, 0x5C]
      else if c < 0x20 \<or> is_leading_surrogate c \<or> is_trailing_surrogate c
        then unicode_escape c
      else [c])"

fun quote_code_points :: "js_string \<Rightarrow> js_string" where
  "quote_code_points [] = []"
| "quote_code_points [c] = quote_code_point c"
| "quote_code_points (c # d # cs) =
     (if is_leading_surrogate c \<and> is_trailing_surrogate d
      then c # d # quote_code_points cs
      else quote_code_point c @ quote_code_points (d # cs))"

definition quote_json_string :: "js_string \<Rightarrow> js_string" where
  "quote_json_string s = 0x22 # quote_code_points s @ [0x22]"

text \<open>
  The decimal digits of a number. A number of the model stands for an integer that a
  double holds exactly and that is below \<open>10\<^sup>2\<^sup>1\<close> in magnitude: those JavaScript
  prints in decimal without exponent, as done here.
\<close>

fun nat_digits :: "nat \<Rightarrow> js_string" where
  "nat_digits n =
     (if n < 10 then [of_nat (48 + n)] else nat_digits (n div 10) @ [of_nat (48 + n mod 10)])"

declare nat_digits.simps [simp del]

definition number_to_string :: "int \<Rightarrow> js_string" where
  "number_to_string n = (if n < 0 then 0x2D # nat_digits (nat (- n)) else nat_digits (nat n))"

fun join_comma :: "js_string list \<Rightarrow> js_string" where
  "join_comma [] = []"
| "join_comma [x] = x"
| "join_comma (x # y # r) = x @ 0x2C # join_comma (y # r)"

text \<open>
  \<^verbatim>\<open>undefined\<close> has no JSON text: at the top the result is \<^verbatim>\<open>undefined\<close>, inside an
  array it is written \<^verbatim>\<open>null\<close>, and a property holding it is left out.
\<close>

fun serialize_json_property :: "js_value \<Rightarrow> js_string option" where
  "serialize_json_property Undefined = None"
| "serialize_json_property Null = Some (lit ''null'')"
| "serialize_json_property (Bool b) = Some (if b then lit ''true'' else lit ''false'')"
| "serialize_json_property (Num n) = Some (number_to_string n)"
| "serialize_json_property (Str s) = Some (quote_json_string s)"
| "serialize_json_property (Arr xs) =
     Some (0x5B # join_comma (map (\<lambda>x. case serialize_json_property x of
                                          None \<Rightarrow> lit ''null'' | Some t \<Rightarrow> t) xs) @ [0x5D])"
| "serialize_json_property (Obj ps) =
     Some (0x7B # join_comma (concat (map (\<lambda>p. case serialize_json_property (snd p) of
                                          None \<Rightarrow> [] | Some t \<Rightarrow> [quote_json_string (fst p) @ 0x3A # t]) ps)) @ [0x7D])"

definition json_stringify :: "js_value \<Rightarrow> js_value" where
  "json_stringify v = (case serialize_json_property v of None \<Rightarrow> Undefined | Some t \<Rightarrow> Str t)"


section \<open>Decoding a JSON array of strings\<close>

text \<open>
  The stored \<^verbatim>\<open>organs_to_donate\<close> text is read back with a JSON decoder. The decoder
  below is \<^verbatim>\<open>JSON.parse\<close> restricted to the texts whose value is an array of strings:
  it accepts the JSON grammar for them (white space around the tokens, every escape
  sequence of a string, no raw control character inside a string) and answers
  \<open>None\<close> for every other text.
\<close>

definition hex_value :: "code_unit \<Rightarrow> nat option" where
  "hex_value c =
     (if 0x30 \<le> c \<and> c \<le> 0x39 then Some (unat c - 48)
      else if 0x61 \<le> c \<and> c \<le> 0x66 then Some (unat c - 87)
      else if 0x41 \<le> c \<and> c \<le> 0x46 then Some (unat c - 55)
      else None)"

definition hex4 :: "code_unit \<Rightarrow> code_unit \<Rightarrow> code_unit \<Rightarrow> code_unit \<Rightarrow> code_unit option" where
  "hex4 a b c d =
     (case hex_value a of None \<Rightarrow> None | Some h3 \<Rightarrow>
     (case hex_value b of None \<Rightarrow> None | Some h2 \<Rightarrow>
     (case hex_value c of None \<Rightarrow> None | Some h1 \<Rightarrow>
     (case hex_value d of None \<Rightarrow> None | Some h0 \<Rightarrow>
        Some (of_nat (((h3 * 16 + h2) * 16 + h1) * 16 + h0))))))"

definition unescape :: "code_unit \<Rightarrow> code_unit option" where
  "unescape e =
     (if e = 0x22 then Some 0x22
      else if e = 0x5C then Some 0x5C
      else if e = 0x2F then Some 0x2F
      else if e = 0x62 then Some 0x08
      else if e = 0x66 then Some 0x0C
      else if e = 0x6E then Some 0x0A
      else if e = 0x72 then Some 0x0D
      else if e = 0x74 then Some 0x09
      else None)"

definition cons_char :: "code_unit \<Rightarrow> (js_string \<times> js_string) option \<Rightarrow> (js_string \<times> js_string) option" where
  "cons_char c r = (case r of None \<Rightarrow> None | Some (s, rest) \<Rightarrow> Some (c # s, rest))"

fun parse_string_chars :: "js_string \<Rightarrow> (js_string \<times> js_string) option" where
  "parse_string_chars [] = None"
| "parse_string_chars (c # cs) =
     (if c = 0x22 then Some ([], cs)
      else if c = 0x5C then
        (case cs of
           [] \<Rightarrow> None
         | e # es \<Rightarrow>
             if e = 0x75 then
               (case es of
                  h3 # h2 # h1 # h0 # rest \<Rightarrow>
                    (case hex4 h3 h2 h1 h0 of
                       None \<Rightarrow> None
                     | Some u \<Rightarrow> cons_char u (parse_string_chars rest))
                | _ \<Rightarrow> None)
             else
               (case unescape e of
                  None \<Rightarrow> None
                | Some u \<Rightarrow> cons_char u (parse_string_chars es)))
      else if c < 0x20 then None
      else cons_char c (parse_string_chars cs))"

declare parse_string_chars.simps(2) [simp del]

definition is_json_whitespace :: "code_unit \<Rightarrow> bool" where
  "is_json_whitespace c = (c = 0x20 \<or> c = 0x09 \<or> c = 0x0A \<or> c = 0x0D)"

definition skip_whitespace :: "js_string \<Rightarrow> js_string" where
  "skip_whitespace cs = dropWhile is_json_whitespace cs"

function parse_string_elements :: "js_string \<Rightarrow> js_string list option" where
  "parse_string_elements cs =
     (case cs of
        [] \<Rightarrow> None
      | q # cs1 \<Rightarrow>
          if q \<noteq> 0x22 then None
          else
            (case parse_string_chars cs1 of
               None \<Rightarrow> None
             | Some (s, r) \<Rightarrow>
                 (case skip_whitespace r of
                    [] \<Rightarrow> None
                  | x # r2 \<Rightarrow>
                      if x = 0x2C then
                        (case parse_string_elements (skip_whitespace r2) of
                           None \<Rightarrow> None
                         | Some ss \<Rightarrow> Some (s # ss))
                      else if x = 0x5D then
                        (if skip_whitespace r2 = [] then Some [s] else None)
                      else None)))"
  by pat_completeness auto
termination
proof (relation "measure length", goal_cases)
  case 1
  show ?case by simp
next
  case (2 cs q cs1 sr s r x r2)
  have shorter: "parse_string_chars a = Some (b, c) \<Longrightarrow> length c < length a" for a b c
  proof (induction a arbitrary: b c rule: parse_string_chars.induct)
    case 1
    then show ?case by simp
  next
    case (2 u us)
    from "2.prems" show ?case
      apply (simp split: if_splits list.splits option.splits
               add: cons_char_def parse_string_chars.simps(2))
      using "2.IH" apply fastforce+
      done
  qed
  have "length r < length cs1"
    using 2 shorter by metis
  moreover have "length (x # r2) \<le> length r"
    using length_dropWhile_le [of is_json_whitespace r] 2 by (simp add: skip_whitespace_def)
  moreover have "length (skip_whitespace r2) \<le> length r2"
    by (simp add: skip_whitespace_def length_dropWhile_le)
  ultimately show ?case using 2 by simp
qed

declare parse_string_elements.simps [simp del]

definition json_parse_string_array :: "js_string \<Rightarrow> js_string list option" where
  "json_parse_string_array t =
     (case skip_whitespace t of
        [] \<Rightarrow> None
      | b # r \<Rightarrow>
          if b \<noteq> 0x5B then None
          else
            (case skip_whitespace r of
               [] \<Rightarrow> None
             | x # r2 \<Rightarrow>
                 if x = 0x5D then (if skip_whitespace r2 = [] then Some [] else None)
                 else parse_string_elements (x # r2)))"



section \<open>The pool, the database and the console\<close>

text \<open>
  The handlers act on three things outside the program: the connection pool created
  by \<^verbatim>\<open>mysql.createPool\<close>, the database behind it, and the console. The world records
  what happened to each: the connections handed out and given back, in order; the
  state of the database, of a type the model leaves open; the lines written to the
  console.
\<close>

datatype js_error = Error (err_code: "string option") (err_message: string)

type_synonym connection = nat

datatype pool_event = Acquired connection | Released connection

record result_set_header =
  insertId :: int

datatype console_entry =
    Console_log string int
  | Console_error string js_error

record 'db world =
  pool_events :: "pool_event list"
  database :: 'db
  console :: "console_entry list"

text \<open>
  The driver is a parameter of the handlers. \<^verbatim>\<open>pool.getConnection()\<close> rejects with
  an error or resolves with a connection; \<^verbatim>\<open>connection.query(sql, values)\<close> rejects
  with an error or resolves with a result header, and leaves the database in a new
  state.
\<close>

record 'db driver =
  pool_getConnection :: "pool_event list \<Rightarrow> js_error + connection"
  connection_query ::
    "connection \<Rightarrow> string \<Rightarrow> js_value list \<Rightarrow> 'db \<Rightarrow> (js_error + result_set_header) \<times> 'db"

section \<open>Responses\<close>

text \<open>
  \<^verbatim>\<open>res.status(n).json(body)\<close>. The three shapes of body the handlers send:
  \<^verbatim>\<open>{ message }\<close>, \<^verbatim>\<open>{ error }\<close> and \<^verbatim>\<open>{ message, donorId }\<close>.
\<close>

datatype response_body =
    Message_body string
  | Error_body string
  | Registered_body string int

datatype response = Response (status: nat) (body: response_body)

fun donorId :: "response_body \<Rightarrow> int option" where
  "donorId (Registered_body m n) = Some n"
| "donorId _ = None"

fun message :: "response_body \<Rightarrow> string option" where
  "message (Message_body m) = Some m"
| "message (Registered_body m n) = Some m"
| "message (Error_body e) = None"

section \<open>The health check\<close>

text \<open>
  \<^verbatim>\<open>app.get('/api', (req, res) => { res.status(200).json({ message: ... }) })\<close>.
  Every handler of the model has the driver, the parsed body and the world at hand.
\<close>

definition health_handler :: "'db driver \<Rightarrow> request_body \<Rightarrow> 'db world \<Rightarrow> response \<times> 'db world" where
  "health_handler drv b w =
     (Response 200 (Message_body ''Tohf-e-Hayat Backend (MySQL) is running!''), w)"

section \<open>The registration handler\<close>

text \<open>The variables bound by \<^verbatim>\<open>const { fullName, email, ... } = req.body\<close>.\<close>

record fields =
  fullName :: js_value
  email :: js_value
  phone :: js_value
  bloodGroup :: js_value
  city :: js_value
  isBloodDonor :: js_value
  isOrganDonor :: js_value
  organs :: js_value

definition destructure :: "request_body \<Rightarrow> fields" where
  "destructure b =
     \<lparr> fullName = get_prop b ''fullName'',
       email = get_prop b ''email'',
       phone = get_prop b ''phone'',
       bloodGroup = get_prop b ''bloodGroup'',
       city = get_prop b ''city'',
       isBloodDonor = get_prop b ''isBloodDonor'',
       isOrganDonor = get_prop b ''isOrganDonor'',
       organs = get_prop b ''organs'' \<rparr>"

text \<open>
  \<^verbatim>\<open>organsJson\<close>, \<^verbatim>\<open>finalBloodGroup\<close> and the \<^verbatim>\<open>values\<close> array of the insert, in the
  order of the columns \<^verbatim>\<open>full_name, email, phone, blood_group, city, is_blood_donor,
  is_organ_donor, organs_to_donate\<close>.
\<close>

definition organsJson :: "fields \<Rightarrow> js_value" where
  "organsJson f = json_stringify (organs f)"

definition finalBloodGroup :: "fields \<Rightarrow> js_value" where
  "finalBloodGroup f = (if is_empty_string (bloodGroup f) then Null else bloodGroup f)"

definition insert_values :: "fields \<Rightarrow> js_value list" where
  "insert_values f =
     [fullName f, email f, phone f, finalBloodGroup f, city f,
      isBloodDonor f, isOrganDonor f, organsJson f]"

text \<open>The text of the statement (the source's line breaks and indentation left out).\<close>

definition insert_query :: string where
  "insert_query =
     ''INSERT INTO donors (full_name, email, phone, blood_group, city, is_blood_donor, is_organ_donor, organs_to_donate) VALUES (?, ?, ?, ?, ?, ?, ?, ?);''"

text \<open>
  The \<^verbatim>\<open>try\<close> block: the connection variable as the block leaves it, the error thrown or
  the response sent, and the world.
\<close>

definition try_block ::
  "'db driver \<Rightarrow> js_value list \<Rightarrow> 'db world \<Rightarrow> connection option \<times> (js_error + response) \<times> 'db world" where
  "try_block drv vals w =
     (case pool_getConnection drv (pool_events w) of
        Inl error \<Rightarrow> (None, Inl error, w)
      | Inr c \<Rightarrow>
          (let w1 = w\<lparr>pool_events := pool_events w @ [Acquired c]\<rparr>
           in case connection_query drv c insert_query vals (database w1) of
                (Inl error, db) \<Rightarrow> (Some c, Inl error, w1\<lparr>database := db\<rparr>)
              | (Inr result, db) \<Rightarrow>
                  (Some c,
                   Inr (Response 201
                          (Registered_body ''Registration successful!'' (insertId result))),
                   w1\<lparr>database := db,
                      console := console w1 @
                        [Console_log ''New donor registered with ID: '' (insertId result)]\<rparr>)))"

text \<open>The \<^verbatim>\<open>catch\<close> block: log the error, then answer by its \<^verbatim>\<open>code\<close>.\<close>

definition catch_block :: "js_error \<Rightarrow> 'db world \<Rightarrow> response \<times> 'db world" where
  "catch_block error w =
     (let w1 = w\<lparr>console := console w @ [Console_error ''Database insertion error:'' error]\<rparr>
      in if err_code error = Some ''ER_DUP_ENTRY''
         then (Response 409 (Error_body ''This email is already registered.''), w1)
         else (Response 500
                 (Error_body ''An error occurred during registration. Please try again.''), w1))"

text \<open>The \<^verbatim>\<open>finally\<close> block: \<^verbatim>\<open>if (connection) { connection.release(); }\<close>.\<close>

definition finally_block :: "connection option \<Rightarrow> 'db world \<Rightarrow> 'db world" where
  "finally_block connection w =
     (case connection of
        None \<Rightarrow> w
      | Some c \<Rightarrow> w\<lparr>pool_events := pool_events w @ [Released c]\<rparr>)"

definition persist :: "'db driver \<Rightarrow> js_value list \<Rightarrow> 'db world \<Rightarrow> response \<times> 'db world" where
  "persist drv vals w =
     (case try_block drv vals w of
        (connection, Inr res, w1) \<Rightarrow> (res, finally_block connection w1)
      | (connection, Inl error, w1) \<Rightarrow>
          (case catch_block error w1 of (res, w2) \<Rightarrow> (res, finally_block connection w2)))"

definition register_handler :: "'db driver \<Rightarrow> request_body \<Rightarrow> 'db world \<Rightarrow> response \<times> 'db world" where
  "register_handler drv b w =
     (let f = destructure b
      in if \<not> to_boolean (fullName f) \<or> \<not> to_boolean (email f)
              \<or> \<not> to_boolean (phone f) \<or> \<not> to_boolean (city f)
         then (Response 400 (Error_body ''Please fill out all required fields.''), w)
         else if to_boolean (isBloodDonor f)
                   \<and> (\<not> to_boolean (bloodGroup f) \<or> is_empty_string (bloodGroup f))
         then (Response 400 (Error_body ''Blood group is required for blood donors.''), w)
         else persist drv (insert_values f) w)"

section \<open>The validation rules, as predicates\<close>

text \<open>
  The conditions of the handler's two \<^verbatim>\<open>if\<close> statements, and the readings of "missing
  or the empty string" and "present and non-empty" for a field of the body.
\<close>

definition missing_required_fields :: "fields \<Rightarrow> bool" where
  "missing_required_fields f =
     (\<not> to_boolean (fullName f) \<or> \<not> to_boolean (email f)
        \<or> \<not> to_boolean (phone f) \<or> \<not> to_boolean (city f))"

definition missing_blood_group :: "fields \<Rightarrow> bool" where
  "missing_blood_group f =
     (to_boolean (isBloodDonor f)
        \<and> (\<not> to_boolean (bloodGroup f) \<or> is_empty_string (bloodGroup f)))"

definition passes_validation :: "request_body \<Rightarrow> bool" where
  "passes_validation b =
     (\<not> missing_required_fields (destructure b) \<and> \<not> missing_blood_group (destructure b))"

definition missing_or_empty :: "js_value \<Rightarrow> bool" where
  "missing_or_empty v = (v = Undefined \<or> v = Str [])"

fun present_and_non_empty :: "js_value \<Rightarrow> bool" where
  "present_and_non_empty (Str s) = (s \<noteq> [])"
| "present_and_non_empty _ = False"

definition any_required_missing :: "fields \<Rightarrow> bool" where
  "any_required_missing f =
     (missing_or_empty (fullName f) \<or> missing_or_empty (email f)
        \<or> missing_or_empty (phone f) \<or> missing_or_empty (city f))"

definition all_required_present :: "fields \<Rightarrow> bool" where
  "all_required_present f =
     (present_and_non_empty (fullName f) \<and> present_and_non_empty (email f)
        \<and> present_and_non_empty (phone f) \<and> present_and_non_empty (city f))"

section \<open>A storage engine to run the handler against\<close>

text \<open>
  Modelled from the spec: the \<^verbatim>\<open>donors\<close> table and the driver in front of it, which are
  not part of the repository. The table holds the rows inserted so far, each the eight
  stored values; the email column is unique, and a second insert with an email already
  there fails with the engine's duplicate-entry code and stores nothing; the
  identifier is assigned by auto-increment, starting at 1. The driver's
  \<^verbatim>\<open>query\<close> sends a parameter that is \<^verbatim>\<open>undefined\<close> as SQL \<^verbatim>\<open>NULL\<close>, as it does \<^verbatim>\<open>null\<close>.
\<close>

type_synonym donors_table = "js_value list list"

definition donors_query ::
  "connection \<Rightarrow> string \<Rightarrow> js_value list \<Rightarrow> donors_table \<Rightarrow> (js_error + result_set_header) \<times> donors_table" where
  "donors_query c sql vals rows =
     (if vals ! 1 \<in> set (map (\<lambda>row. row ! 1) rows)
      then (Inl (Error (Some ''ER_DUP_ENTRY'') ''Duplicate entry for key email''), rows)
      else (Inr \<lparr>insertId = int (length rows) + 1\<rparr>,
            rows @ [map (\<lambda>v. if v = Undefined then Null else v) vals]))"

definition donors_driver :: "donors_table driver" where
  "donors_driver =
     \<lparr> pool_getConnection = (\<lambda>events. Inr (length events)),
       connection_query = donors_query \<rparr>"

text \<open>A database that cannot be reached: the pool hands out no connection.\<close>

definition unreachable_driver :: "donors_table driver" where
  "unreachable_driver =
     \<lparr> pool_getConnection = (\<lambda>events. Inl (Error (Some ''ECONNREFUSED'') ''connect ECONNREFUSED'')),
       connection_query = donors_query \<rparr>"

text \<open>A database that hands out a connection and then fails every statement.\<close>

definition failing_driver :: "js_error \<Rightarrow> donors_table driver" where
  "failing_driver e =
     \<lparr> pool_getConnection = (\<lambda>events. Inr (length events)),
       connection_query = (\<lambda>c sql vals rows. (Inl e, rows)) \<rparr>"

definition empty_world :: "donors_table world" where
  "empty_world = \<lparr> pool_events = [], database = [], console = [] \<rparr>"

section \<open>Request bodies of the scenarios\<close>

definition scenario_A_body :: request_body where
  "scenario_A_body =
     [(lit ''fullName'', Str (lit ''Ana Khan'')),
      (lit ''email'', Str (lit ''ana@example.com'')),
      (lit ''phone'', Str (lit ''555-0100'')),
      (lit ''city'', Str (lit ''Lahore'')),
      (lit ''isBloodDonor'', Bool True),
      (lit ''bloodGroup'', Str (lit ''O+'')),
      (lit ''isOrganDonor'', Bool False),
      (lit ''organs'', Arr [])]"

definition scenario_C_body :: request_body where
  "scenario_C_body =
     [(lit ''fullName'', Str []),
      (lit ''email'', Str (lit ''x@example.com'')),
      (lit ''phone'', Str (lit ''1'')),
      (lit ''city'', Str (lit ''Karachi''))]"

definition scenario_D_body :: request_body where
  "scenario_D_body =
     [(lit ''fullName'', Str (lit ''Ana Khan'')),
      (lit ''email'', Str (lit ''ana@example.com'')),
      (lit ''phone'', Str (lit ''555-0100'')),
      (lit ''city'', Str (lit ''Lahore'')),
      (lit ''isBloodDonor'', Bool True),
      (lit ''bloodGroup'', Str []),
      (lit ''isOrganDonor'', Bool False),
      (lit ''organs'', Arr [])]"

text \<open>An organ donor whose body has an empty \<^verbatim>\<open>bloodGroup\<close>.\<close>

definition organ_donor_body :: request_body where
  "organ_donor_body =
     [(lit ''fullName'', Str (lit ''Bilal Ahmed'')),
      (lit ''email'', Str (lit ''bilal@example.com'')),
      (lit ''phone'', Str (lit ''555-0101'')),
      (lit ''city'', Str (lit ''Karachi'')),
      (lit ''isBloodDonor'', Bool False),
      (lit ''bloodGroup'', Str []),
      (lit ''isOrganDonor'', Bool True),
      (lit ''organs'', Arr [Str (lit ''kidney''), Str (lit ''liver'')])]"

text \<open>An organ donor whose body has neither a \<^verbatim>\<open>bloodGroup\<close> nor an \<^verbatim>\<open>organs\<close> property.\<close>

definition bare_body :: request_body where
  "bare_body =
     [(lit ''fullName'', Str (lit ''Sara Malik'')),
      (lit ''email'', Str (lit ''sara@example.com'')),
      (lit ''phone'', Str (lit ''555-0102'')),
      (lit ''city'', Str (lit ''Multan'')),
      (lit ''isBloodDonor'', Bool False),
      (lit ''isOrganDonor'', Bool True)]"

text \<open>A blood donor whose body has an empty \<^verbatim>\<open>fullName\<close> and an empty \<^verbatim>\<open>bloodGroup\<close>.\<close>

definition incomplete_blood_donor_body :: request_body where
  "incomplete_blood_donor_body =
     [(lit ''fullName'', Str []),
      (lit ''email'', Str (lit ''x@example.com'')),
      (lit ''phone'', Str (lit ''1'')),
      (lit ''city'', Str (lit ''Karachi'')),
      (lit ''isBloodDonor'', Bool True),
      (lit ''bloodGroup'', Str [])]"

text \<open>The world after scenario A has run against the empty table.\<close>

definition registered_world :: "donors_table world" where
  "registered_world = snd (register_handler donors_driver scenario_A_body empty_world)"

section \<open>The decoder inverts the encoder\<close>

lemma hex_value_hex_digit: "n < 16 \<Longrightarrow> hex_value (hex_digit n) = Some n"
proof -
  assume n: "n < 16"
  have u: "unat (of_nat k :: code_unit) = k" if "k < 65536" for k
    using that by (simp add: unsigned_of_nat take_bit_nat_eq_self)
  show ?thesis
  proof (cases "n < 10")
    case True
    then have "unat (of_nat (48 + n) :: code_unit) = 48 + n"
      by (intro u) simp
    with True show ?thesis
      by (simp add: hex_value_def hex_digit_def word_le_nat_alt)
  next
    case False
    with n have "unat (of_nat (87 + n) :: code_unit) = 87 + n"
      by (intro u) simp
    with False n show ?thesis
      by (simp add: hex_value_def hex_digit_def word_le_nat_alt)
  qed
qed

lemma hex_recompose:
  "((n div 4096 * 16 + n div 256 mod 16) * 16 + n div 16 mod 16) * 16 + n mod 16 = (n::nat)"
proof -
  have a: "n div 4096 = n div 256 div 16"
    by (simp add: div_mult2_eq [symmetric])
  have b: "n div 256 = n div 16 div 16"
    by (simp add: div_mult2_eq [symmetric])
  have "n div 4096 * 16 + n div 256 mod 16 = n div 256"
    unfolding a by simp
  moreover have "n div 256 * 16 + n div 16 mod 16 = n div 16"
    unfolding b by simp
  ultimately show ?thesis
    by simp
qed

lemma hex4_digits:
  "hex4 (hex_digit (unat c div 4096)) (hex_digit (unat c div 256 mod 16))
        (hex_digit (unat c div 16 mod 16)) (hex_digit (unat c mod 16)) = Some (c :: code_unit)"
proof -
  have lt: "unat c < 65536"
    using unsigned_less [of c] by simp
  then have d3: "unat c div 4096 < 16" by simp
  have r: "(of_nat (((unat c div 4096 * 16 + unat c div 256 mod 16) * 16
                + unat c div 16 mod 16) * 16 + unat c mod 16) :: code_unit) = c"
    by (simp only: hex_recompose) simp
  have h: "hex_value (hex_digit (unat c div 4096)) = Some (unat c div 4096)"
    "hex_value (hex_digit (unat c div 256 mod 16)) = Some (unat c div 256 mod 16)"
    "hex_value (hex_digit (unat c div 16 mod 16)) = Some (unat c div 16 mod 16)"
    "hex_value (hex_digit (unat c mod 16)) = Some (unat c mod 16)"
    by (simp_all add: hex_value_hex_digit d3)
  show ?thesis
    unfolding hex4_def by (simp only: h option.case r)
qed

lemma parse_unicode_escape:
  "parse_string_chars (unicode_escape c @ rest) = cons_char c (parse_string_chars rest)"
  by (simp add: unicode_escape_def Let_def hex4_digits parse_string_chars.simps(2))

lemma parse_literal:
  "c \<noteq> 0x22 \<Longrightarrow> c \<noteq> 0x5C \<Longrightarrow> \<not> c < 0x20 \<Longrightarrow>
   parse_string_chars (c # rest) = cons_char c (parse_string_chars rest)"
  by (simp add: parse_string_chars.simps(2))

lemma parse_quote_code_point:
  "parse_string_chars (quote_code_point c @ rest) = cons_char c (parse_string_chars rest)"
proof -
  consider (short) "c \<in> {0x08, 0x09, 0x0A, 0x0C, 0x0D, 0x22, 0x5C}"
    | (esc) "c \<notin> {0x08, 0x09, 0x0A, 0x0C, 0x0D, 0x22, 0x5C}"
        "c < 0x20 \<or> is_leading_surrogate c \<or> is_trailing_surrogate c"
    | (plain) "c \<notin> {0x08, 0x09, 0x0A, 0x0C, 0x0D, 0x22, 0x5C}"
        "\<not> (c < 0x20 \<or> is_leading_surrogate c \<or> is_trailing_surrogate c)"
    by blast
  then show ?thesis
  proof cases
    case short
    then show ?thesis
      by (auto simp: quote_code_point_def unescape_def parse_string_chars.simps(2))
  next
    case esc
    then have "quote_code_point c = unicode_escape c"
      by (simp add: quote_code_point_def)
    then show ?thesis
      by (simp only: parse_unicode_escape)
  next
    case plain
    then have "quote_code_point c = [c]"
      by (simp add: quote_code_point_def)
    with plain show ?thesis
      by (simp add: parse_literal)
  qed
qed

lemma surrogate_literal:
  assumes "is_leading_surrogate c \<or> is_trailing_surrogate c"
  shows "c \<noteq> 0x22" "c \<noteq> 0x5C" "\<not> c < 0x20"
  using assms
  by (auto simp: is_leading_surrogate_def is_trailing_surrogate_def word_le_nat_alt word_less_nat_alt)

lemma parse_quote_code_points:
  "parse_string_chars (quote_code_points s @ 0x22 # rest) = Some (s, rest)"
proof (induction s rule: quote_code_points.induct)
  case 1
  show ?case by (simp add: parse_string_chars.simps(2))
next
  case (2 c)
  have "parse_string_chars (quote_code_point c @ 0x22 # rest)
          = cons_char c (parse_string_chars (0x22 # rest))"
    by (rule parse_quote_code_point)
  then show ?case by (simp add: cons_char_def parse_string_chars.simps(2))
next
  case (3 c d cs)
  show ?case
  proof (cases "is_leading_surrogate c \<and> is_trailing_surrogate d")
    case True
    then have c: "c \<noteq> 0x22" "c \<noteq> 0x5C" "\<not> c < 0x20"
      and d: "d \<noteq> 0x22" "d \<noteq> 0x5C" "\<not> d < 0x20"
      using surrogate_literal by blast+
    have "parse_string_chars (quote_code_points (c # d # cs) @ 0x22 # rest)
            = parse_string_chars (c # d # (quote_code_points cs @ 0x22 # rest))"
      using True by simp
    also have "\<dots> = cons_char c (cons_char d (parse_string_chars (quote_code_points cs @ 0x22 # rest)))"
      by (simp add: parse_literal c d)
    also have "\<dots> = Some (c # d # cs, rest)"
      using 3(1) True by (simp add: cons_char_def)
    finally show ?thesis .
  next
    case False
    have "parse_string_chars (quote_code_points (c # d # cs) @ 0x22 # rest)
            = parse_string_chars (quote_code_point c @ (quote_code_points (d # cs) @ 0x22 # rest))"
      using False by auto
    also have "\<dots> = cons_char c (parse_string_chars (quote_code_points (d # cs) @ 0x22 # rest))"
      by (rule parse_quote_code_point)
    also have "\<dots> = Some (c # d # cs, rest)"
      using 3(2) False by (simp add: cons_char_def)
    finally show ?thesis .
  qed
qed

lemma skip_whitespace_cons:
  "\<not> is_json_whitespace c \<Longrightarrow> skip_whitespace (c # cs) = c # cs"
  by (simp add: skip_whitespace_def)

lemma skip_whitespace_Nil: "skip_whitespace [] = []"
  by (simp add: skip_whitespace_def)

lemma skip_whitespace_join:
  "skip_whitespace (join_comma (quote_json_string s # map quote_json_string ss) @ r)
     = join_comma (quote_json_string s # map quote_json_string ss) @ r"
  by (cases ss) (simp_all add: quote_json_string_def skip_whitespace_def is_json_whitespace_def)

lemma parse_string_elements_quoted:
  "parse_string_elements (quote_json_string s @ r) =
     (case skip_whitespace r of
        [] \<Rightarrow> None
      | x # r2 \<Rightarrow>
          if x = 0x2C then
            (case parse_string_elements (skip_whitespace r2) of
               None \<Rightarrow> None
             | Some ss \<Rightarrow> Some (s # ss))
          else if x = 0x5D then (if skip_whitespace r2 = [] then Some [s] else None)
          else None)"
  by (subst parse_string_elements.simps)
     (simp add: quote_json_string_def parse_quote_code_points)

lemma parse_string_elements_join:
  "parse_string_elements (join_comma (map quote_json_string (s # ss)) @ [0x5D]) = Some (s # ss)"
proof (induction ss arbitrary: s)
  case Nil
  show ?case
    by (simp add: parse_string_elements_quoted skip_whitespace_cons skip_whitespace_Nil
          is_json_whitespace_def)
next
  case (Cons s' ss)
  have "parse_string_elements
          (quote_json_string s @ 0x2C # (join_comma (quote_json_string s' # map quote_json_string ss) @ [0x5D]))
        = Some (s # s' # ss)"
    using Cons.IH [of s']
    by (simp add: parse_string_elements_quoted skip_whitespace_cons is_json_whitespace_def
          skip_whitespace_join del: join_comma.simps)
  then show ?case by simp
qed

lemma json_parse_string_array_join:
  "json_parse_string_array (0x5B # join_comma (map quote_json_string ss) @ [0x5D]) = Some ss"
proof (cases ss)
  case Nil
  then show ?thesis
    by (simp add: json_parse_string_array_def skip_whitespace_cons skip_whitespace_Nil
          is_json_whitespace_def)
next
  case (Cons s ss')
  have "\<exists>t. join_comma (quote_json_string s # map quote_json_string ss') @ [0x5D] = 0x22 # t"
    by (cases ss') (simp_all add: quote_json_string_def)
  then obtain t where t: "join_comma (quote_json_string s # map quote_json_string ss') @ [0x5D] = 0x22 # t"
    by blast
  have "json_parse_string_array (0x5B # 0x22 # t) = parse_string_elements (0x22 # t)"
    by (simp add: json_parse_string_array_def skip_whitespace_cons is_json_whitespace_def)
  then show ?thesis
    using Cons parse_string_elements_join [of s ss'] t by (simp del: join_comma.simps)
qed

lemma serialize_string_array:
  "serialize_json_property (Arr (map Str ss))
     = Some (0x5B # join_comma (map quote_json_string ss) @ [0x5D])"
  by (simp add: comp_def)

lemma json_stringify_round_trip:
  "json_stringify (Arr (map Str ss)) = Str (0x5B # join_comma (map quote_json_string ss) @ [0x5D])"
  by (simp add: json_stringify_def serialize_string_array del: serialize_json_property.simps)

section \<open>The handler, path by path\<close>

lemma missing_or_empty_falsy: "missing_or_empty v \<Longrightarrow> \<not> to_boolean v"
  by (auto simp: missing_or_empty_def)

lemma present_and_non_empty_truthy: "present_and_non_empty v \<Longrightarrow> to_boolean v"
  by (cases v) simp_all

lemma any_required_missing_fails:
  "any_required_missing f \<Longrightarrow> missing_required_fields f"
  by (auto simp: any_required_missing_def missing_required_fields_def dest: missing_or_empty_falsy)

lemma all_required_present_passes:
  "all_required_present f \<Longrightarrow> \<not> missing_required_fields f"
  by (simp add: all_required_present_def missing_required_fields_def present_and_non_empty_truthy)

lemma register_handler_required:
  "missing_required_fields (destructure b) \<Longrightarrow>
   register_handler drv b w = (Response 400 (Error_body ''Please fill out all required fields.''), w)"
  by (simp add: register_handler_def missing_required_fields_def Let_def)

lemma register_handler_blood_group:
  "\<not> missing_required_fields (destructure b) \<Longrightarrow> missing_blood_group (destructure b) \<Longrightarrow>
   register_handler drv b w =
     (Response 400 (Error_body ''Blood group is required for blood donors.''), w)"
  by (simp add: register_handler_def missing_required_fields_def missing_blood_group_def Let_def)

lemma register_handler_persist:
  "passes_validation b \<Longrightarrow>
   register_handler drv b w = persist drv (insert_values (destructure b)) w"
  by (auto simp: register_handler_def passes_validation_def missing_required_fields_def
        missing_blood_group_def Let_def)

lemma persist_no_connection:
  "pool_getConnection drv (pool_events w) = Inl e \<Longrightarrow>
   persist drv vals w = catch_block e w"
  by (simp add: persist_def try_block_def finally_block_def split: prod.splits)

lemma persist_query_failed:
  assumes "pool_getConnection drv (pool_events w) = Inr c"
    and "connection_query drv c insert_query vals (database w) = (Inl e, db)"
  shows "persist drv vals w =
     (fst (catch_block e w),
      w\<lparr>pool_events := pool_events w @ [Acquired c, Released c],
         database := db,
         console := console w @ [Console_error ''Database insertion error:'' e]\<rparr>)"
  using assms
  by (simp add: persist_def try_block_def catch_block_def finally_block_def Let_def)

lemma persist_query_succeeded:
  assumes "pool_getConnection drv (pool_events w) = Inr c"
    and "connection_query drv c insert_query vals (database w) = (Inr r, db)"
  shows "persist drv vals w =
     (Response 201 (Registered_body ''Registration successful!'' (insertId r)),
      w\<lparr>pool_events := pool_events w @ [Acquired c, Released c],
         database := db,
         console := console w @ [Console_log ''New donor registered with ID: '' (insertId r)]\<rparr>)"
  using assms
  by (simp add: persist_def try_block_def finally_block_def Let_def)

lemma catch_block_response:
  "fst (catch_block e w) =
     (if err_code e = Some ''ER_DUP_ENTRY''
      then Response 409 (Error_body ''This email is already registered.'')
      else Response 500 (Error_body ''An error occurred during registration. Please try again.''))"
  by (simp add: catch_block_def Let_def)


section \<open>The scenarios, evaluated\<close>

lemmas body_defs = destructure_def get_prop_def lit_def

lemma destructure_scenario_A:
  "destructure scenario_A_body =
     \<lparr> fullName = Str (lit ''Ana Khan''), email = Str (lit ''ana@example.com''),
       phone = Str (lit ''555-0100''), bloodGroup = Str (lit ''O+''),
       city = Str (lit ''Lahore''), isBloodDonor = Bool True, isOrganDonor = Bool False,
       organs = Arr [] \<rparr>"
  by (simp add: body_defs scenario_A_body_def)

lemma destructure_scenario_C:
  "destructure scenario_C_body =
     \<lparr> fullName = Str [], email = Str (lit ''x@example.com''),
       phone = Str (lit ''1''), bloodGroup = Undefined,
       city = Str (lit ''Karachi''), isBloodDonor = Undefined, isOrganDonor = Undefined,
       organs = Undefined \<rparr>"
  by (simp add: body_defs scenario_C_body_def)

lemma destructure_scenario_D:
  "destructure scenario_D_body =
     \<lparr> fullName = Str (lit ''Ana Khan''), email = Str (lit ''ana@example.com''),
       phone = Str (lit ''555-0100''), bloodGroup = Str [],
       city = Str (lit ''Lahore''), isBloodDonor = Bool True, isOrganDonor = Bool False,
       organs = Arr [] \<rparr>"
  by (simp add: body_defs scenario_D_body_def)

lemma destructure_organ_donor:
  "destructure organ_donor_body =
     \<lparr> fullName = Str (lit ''Bilal Ahmed''), email = Str (lit ''bilal@example.com''),
       phone = Str (lit ''555-0101''), bloodGroup = Str [],
       city = Str (lit ''Karachi''), isBloodDonor = Bool False, isOrganDonor = Bool True,
       organs = Arr [Str (lit ''kidney''), Str (lit ''liver'')] \<rparr>"
  by (simp add: body_defs organ_donor_body_def)

lemma destructure_bare:
  "destructure bare_body =
     \<lparr> fullName = Str (lit ''Sara Malik''), email = Str (lit ''sara@example.com''),
       phone = Str (lit ''555-0102''), bloodGroup = Undefined,
       city = Str (lit ''Multan''), isBloodDonor = Bool False, isOrganDonor = Bool True,
       organs = Undefined \<rparr>"
  by (simp add: body_defs bare_body_def)

lemma destructure_incomplete_blood_donor:
  "destructure incomplete_blood_donor_body =
     \<lparr> fullName = Str [], email = Str (lit ''x@example.com''),
       phone = Str (lit ''1''), bloodGroup = Str [],
       city = Str (lit ''Karachi''), isBloodDonor = Bool True, isOrganDonor = Undefined,
       organs = Undefined \<rparr>"
  by (simp add: body_defs incomplete_blood_donor_body_def)

lemmas validation_defs =
  passes_validation_def missing_required_fields_def missing_blood_group_def
  any_required_missing_def all_required_present_def missing_or_empty_def is_empty_string_def

lemma passes_validation_scenario_A: "passes_validation scenario_A_body"
  by (simp add: validation_defs destructure_scenario_A lit_def)

lemma passes_validation_organ_donor: "passes_validation organ_donor_body"
  by (simp add: validation_defs destructure_organ_donor lit_def)

lemma passes_validation_bare: "passes_validation bare_body"
  by (simp add: validation_defs destructure_bare lit_def)

lemma scenario_A_registered:
  "register_handler donors_driver scenario_A_body empty_world =
     (Response 201 (Registered_body ''Registration successful!'' 1),
      \<lparr> pool_events = [Acquired 0, Released 0],
        database = [insert_values (destructure scenario_A_body)],
        console = [Console_log ''New donor registered with ID: '' 1] \<rparr>)"
proof -
  have q: "connection_query donors_driver 0 insert_query
             (insert_values (destructure scenario_A_body)) (database empty_world)
           = (Inr \<lparr>insertId = 1\<rparr>, [insert_values (destructure scenario_A_body)])"
    by (simp add: donors_driver_def donors_query_def empty_world_def insert_values_def
          destructure_scenario_A finalBloodGroup_def organsJson_def json_stringify_def
          is_empty_string_def lit_def)
  have c: "pool_getConnection donors_driver (pool_events empty_world) = Inr 0"
    by (simp add: donors_driver_def empty_world_def)
  show ?thesis
    by (simp add: register_handler_persist [OF passes_validation_scenario_A]
          persist_query_succeeded [OF c q]) (simp add: empty_world_def)
qed


lemma bare_registered:
  "register_handler donors_driver bare_body empty_world =
     (Response 201 (Registered_body ''Registration successful!'' 1),
      \<lparr> pool_events = [Acquired 0, Released 0],
        database = [[Str (lit ''Sara Malik''), Str (lit ''sara@example.com''),
                     Str (lit ''555-0102''), Null, Str (lit ''Multan''),
                     Bool False, Bool True, Null]],
        console = [Console_log ''New donor registered with ID: '' 1] \<rparr>)"
proof -
  have c: "pool_getConnection donors_driver (pool_events empty_world) = Inr 0"
    by (simp add: donors_driver_def empty_world_def)
  have q: "connection_query donors_driver 0 insert_query
             (insert_values (destructure bare_body)) (database empty_world)
           = (Inr \<lparr>insertId = 1\<rparr>,
              [[Str (lit ''Sara Malik''), Str (lit ''sara@example.com''),
                Str (lit ''555-0102''), Null, Str (lit ''Multan''),
                Bool False, Bool True, Null]])"
    by (simp add: donors_driver_def donors_query_def empty_world_def insert_values_def
          destructure_bare finalBloodGroup_def organsJson_def json_stringify_def
          is_empty_string_def)
  show ?thesis
    by (simp add: register_handler_persist [OF passes_validation_bare]
          persist_query_succeeded [OF c q]) (simp add: empty_world_def)
qed

lemma registered_world_eq:
  "registered_world =
     \<lparr> pool_events = [Acquired 0, Released 0],
       database = [insert_values (destructure scenario_A_body)],
       console = [Console_log ''New donor registered with ID: '' 1] \<rparr>"
  by (simp add: registered_world_def scenario_A_registered)

lemma scenario_B_try_block:
  "try_block donors_driver (insert_values (destructure scenario_A_body)) registered_world =
     (Some 2, Inl (Error (Some ''ER_DUP_ENTRY'') ''Duplicate entry for key email''),
      registered_world\<lparr>pool_events := [Acquired 0, Released 0, Acquired 2]\<rparr>)"
  by (simp add: try_block_def registered_world_eq donors_driver_def donors_query_def
        insert_values_def Let_def)

lemma failing_try_block:
  "try_block (failing_driver e) vals empty_world =
     (Some 0, Inl e, empty_world\<lparr>pool_events := [Acquired 0]\<rparr>)"
  by (simp add: try_block_def failing_driver_def empty_world_def Let_def)

lemma unreachable_try_block:
  "try_block unreachable_driver vals empty_world =
     (None, Inl (Error (Some ''ECONNREFUSED'') ''connect ECONNREFUSED''), empty_world)"
  by (simp add: try_block_def unreachable_driver_def empty_world_def)

lemma persist_thrown:
  "try_block drv vals w = (conn, Inl e, w1) \<Longrightarrow>
   fst (persist drv vals w) = fst (catch_block e w1)"
  by (simp add: persist_def split: prod.splits)

lemma finalBloodGroup_missing_or_empty:
  "missing_or_empty (bloodGroup f) \<Longrightarrow>
   finalBloodGroup f = (if bloodGroup f = Str [] then Null else Undefined)"
  by (auto simp: finalBloodGroup_def missing_or_empty_def is_empty_string_def)

lemma donors_driver_duplicate:
  assumes "passes_validation b"
    and "insert_values (destructure b) ! 1 \<in> set (map (\<lambda>row. row ! 1) (database w))"
  shows "register_handler donors_driver b w =
     (Response 409 (Error_body ''This email is already registered.''),
      w\<lparr>pool_events := pool_events w
            @ [Acquired (length (pool_events w)), Released (length (pool_events w))],
         database := database w,
         console := console w @ [Console_error ''Database insertion error:''
                      (Error (Some ''ER_DUP_ENTRY'') ''Duplicate entry for key email'')]\<rparr>)"
proof -
  have c: "pool_getConnection donors_driver (pool_events w) = Inr (length (pool_events w))"
    by (simp add: donors_driver_def)
  have q: "connection_query donors_driver (length (pool_events w)) insert_query
             (insert_values (destructure b)) (database w)
           = (Inl (Error (Some ''ER_DUP_ENTRY'') ''Duplicate entry for key email''), database w)"
    using assms(2) by (simp add: donors_driver_def donors_query_def)
  show ?thesis
    by (simp add: register_handler_persist [OF assms(1)] persist_query_failed [OF c q]
          catch_block_response)
qed

lemma donors_driver_inserted:
  assumes "passes_validation b"
    and "insert_values (destructure b) ! 1 \<notin> set (map (\<lambda>row. row ! 1) (database w))"
  shows "register_handler donors_driver b w =
     (Response 201 (Registered_body ''Registration successful!'' (int (length (database w)) + 1)),
      w\<lparr>pool_events := pool_events w
            @ [Acquired (length (pool_events w)), Released (length (pool_events w))],
         database := database w
            @ [map (\<lambda>v. if v = Undefined then Null else v) (insert_values (destructure b))],
         console := console w @ [Console_log ''New donor registered with ID: ''
                      (int (length (database w)) + 1)]\<rparr>)"
proof -
  have c: "pool_getConnection donors_driver (pool_events w) = Inr (length (pool_events w))"
    by (simp add: donors_driver_def)
  have q: "connection_query donors_driver (length (pool_events w)) insert_query
             (insert_values (destructure b)) (database w)
           = (Inr \<lparr>insertId = int (length (database w)) + 1\<rparr>,
              database w
                @ [map (\<lambda>v. if v = Undefined then Null else v) (insert_values (destructure b))])"
    using assms(2) by (simp add: donors_driver_def donors_query_def)
  show ?thesis
    by (simp add: register_handler_persist [OF assms(1)] persist_query_succeeded [OF c q])
qed

lemma stored_blood_group:
  "missing_or_empty (bloodGroup f) \<Longrightarrow>
   map (\<lambda>v. if v = Undefined then Null else v) (insert_values f) ! 3 = Null"
  by (auto simp: insert_values_def finalBloodGroup_missing_or_empty)

section \<open>The claims\<close>

text \<open>
  C1. A request in which any of fullName, email, phone or city is missing or the empty
  string is answered with status 400 and the required-fields message, and the database
  is left as it was: no row is inserted.
\<close>

theorem missing_required_field_rejected:
  assumes "any_required_missing (destructure b)"
  shows "fst (register_handler drv b w)
           = Response 400 (Error_body ''Please fill out all required fields.'')
         \<and> database (snd (register_handler drv b w)) = database w"
  using assms by (simp add: register_handler_required any_required_missing_fails)

theorem missing_required_field_rejected_witness:
  "any_required_missing (destructure scenario_C_body)
   \<and> fst (register_handler donors_driver scenario_C_body registered_world)
       = Response 400 (Error_body ''Please fill out all required fields.'')
   \<and> database (snd (register_handler donors_driver scenario_C_body registered_world))
       = database registered_world"
proof -
  have h: "any_required_missing (destructure scenario_C_body)"
    by (simp add: validation_defs destructure_scenario_C)
  show ?thesis
    using h missing_required_field_rejected [OF h, of donors_driver registered_world]
    by simp
qed

text \<open>
  C2. When the request passes validation and the \<^verbatim>\<open>try\<close> block throws, the response is
  decided by the error's code alone: 409 with the already-registered message for the
  engine's duplicate-entry code, and otherwise 500 with one fixed message, the same
  for every error.
\<close>

theorem insert_failure_classified:
  assumes "passes_validation b"
    and "try_block drv (insert_values (destructure b)) w = (conn, Inl e, w1)"
  shows "fst (register_handler drv b w) =
     (if err_code e = Some ''ER_DUP_ENTRY''
      then Response 409 (Error_body ''This email is already registered.'')
      else Response 500 (Error_body ''An error occurred during registration. Please try again.''))"
  using assms by (simp add: register_handler_persist persist_thrown catch_block_response)

theorem insert_failure_classified_witness:
  "passes_validation scenario_A_body
   \<and> fst (register_handler donors_driver scenario_A_body registered_world)
       = Response 409 (Error_body ''This email is already registered.'')
   \<and> fst (register_handler (failing_driver (Error (Some ''ER_BAD_NULL_ERROR'') ''Column cannot be null''))
            scenario_A_body empty_world)
       = Response 500 (Error_body ''An error occurred during registration. Please try again.'')
   \<and> fst (register_handler unreachable_driver scenario_A_body empty_world)
       = Response 500 (Error_body ''An error occurred during registration. Please try again.'')"
  using insert_failure_classified [OF passes_validation_scenario_A scenario_B_try_block]
    insert_failure_classified [OF passes_validation_scenario_A failing_try_block]
    insert_failure_classified [OF passes_validation_scenario_A unreachable_try_block]
    passes_validation_scenario_A
  by simp

text \<open>
  C3. For a request that passes validation and in which bloodGroup is missing or the
  empty string, whatever the two donor flags are: when the registration is answered
  201, one row has been added to the donors table and its \<^verbatim>\<open>blood_group\<close> is null,
  neither the empty string nor \<^verbatim>\<open>undefined\<close>; when it is answered otherwise, nothing
  has been stored. The value the handler hands over is never the empty string.
\<close>

theorem blood_group_persisted_null:
  assumes "passes_validation b"
    and "missing_or_empty (bloodGroup (destructure b))"
  shows "(status (fst (register_handler donors_driver b w)) = 201 \<longrightarrow>
            (\<exists>row. database (snd (register_handler donors_driver b w)) = database w @ [row]
                   \<and> row ! 3 = Null \<and> row ! 3 \<noteq> Str [] \<and> row ! 3 \<noteq> Undefined))
         \<and> (status (fst (register_handler donors_driver b w)) \<noteq> 201 \<longrightarrow>
            database (snd (register_handler donors_driver b w)) = database w)
         \<and> finalBloodGroup (destructure b) \<noteq> Str []"
proof (cases "insert_values (destructure b) ! 1 \<in> set (map (\<lambda>row. row ! 1) (database w))")
  case True
  then show ?thesis
    using assms(2)
    by (simp add: donors_driver_duplicate [OF assms(1)] finalBloodGroup_missing_or_empty)
next
  case False
  then show ?thesis
    using assms(2) stored_blood_group [OF assms(2)]
    by (simp add: donors_driver_inserted [OF assms(1)] finalBloodGroup_missing_or_empty)
qed

theorem blood_group_persisted_null_witness:
  "passes_validation organ_donor_body
   \<and> missing_or_empty (bloodGroup (destructure organ_donor_body))
   \<and> status (fst (register_handler donors_driver organ_donor_body registered_world)) = 201
   \<and> (\<exists>row. database (snd (register_handler donors_driver organ_donor_body registered_world))
               = database registered_world @ [row] \<and> row ! 3 = Null)
   \<and> passes_validation bare_body
   \<and> missing_or_empty (bloodGroup (destructure bare_body))
   \<and> status (fst (register_handler donors_driver bare_body empty_world)) = 201
   \<and> (\<exists>row. database (snd (register_handler donors_driver bare_body empty_world))
               = database empty_world @ [row] \<and> row ! 3 = Null)"
proof -
  have h1: "missing_or_empty (bloodGroup (destructure organ_donor_body))"
    by (simp add: destructure_organ_donor missing_or_empty_def)
  have h2: "missing_or_empty (bloodGroup (destructure bare_body))"
    by (simp add: destructure_bare missing_or_empty_def)
  have n: "insert_values (destructure organ_donor_body) ! 1
             \<notin> set (map (\<lambda>row. row ! 1) (database registered_world))"
    by (simp add: registered_world_eq insert_values_def destructure_organ_donor
          destructure_scenario_A lit_def)
  have s1: "status (fst (register_handler donors_driver organ_donor_body registered_world)) = 201"
    by (simp add: donors_driver_inserted [OF passes_validation_organ_donor n])
  have s2: "status (fst (register_handler donors_driver bare_body empty_world)) = 201"
    by (simp add: bare_registered)
  show ?thesis
    using blood_group_persisted_null [OF passes_validation_organ_donor h1, of registered_world]
      blood_group_persisted_null [OF passes_validation_bare h2, of empty_world]
      passes_validation_organ_donor passes_validation_bare h1 h2 s1 s2
    by blast
qed

text \<open>
  C4. When isBloodDonor is true and bloodGroup is missing or the empty string: if
  fullName, email, phone and city are all present and non-empty, the answer is 400 with
  the blood-group message; if one of them is missing or empty, the required-fields
  check comes first and its message is the answer. Either way the world is left as it
  was, so no row is inserted.
\<close>

theorem blood_donor_without_blood_group_rejected:
  assumes "isBloodDonor (destructure b) = Bool True"
    and "missing_or_empty (bloodGroup (destructure b))"
  shows "(all_required_present (destructure b) \<longrightarrow>
            register_handler drv b w =
              (Response 400 (Error_body ''Blood group is required for blood donors.''), w))
         \<and> (any_required_missing (destructure b) \<longrightarrow>
            register_handler drv b w =
              (Response 400 (Error_body ''Please fill out all required fields.''), w))"
proof -
  from assms have "missing_blood_group (destructure b)"
    by (auto simp: missing_blood_group_def dest: missing_or_empty_falsy)
  then show ?thesis
    by (simp add: register_handler_blood_group all_required_present_passes
          register_handler_required any_required_missing_fails)
qed

theorem blood_donor_without_blood_group_rejected_witness:
  "isBloodDonor (destructure scenario_D_body) = Bool True
   \<and> missing_or_empty (bloodGroup (destructure scenario_D_body))
   \<and> all_required_present (destructure scenario_D_body)
   \<and> register_handler donors_driver scenario_D_body empty_world =
        (Response 400 (Error_body ''Blood group is required for blood donors.''), empty_world)
   \<and> isBloodDonor (destructure incomplete_blood_donor_body) = Bool True
   \<and> missing_or_empty (bloodGroup (destructure incomplete_blood_donor_body))
   \<and> any_required_missing (destructure incomplete_blood_donor_body)
   \<and> register_handler donors_driver incomplete_blood_donor_body empty_world =
        (Response 400 (Error_body ''Please fill out all required fields.''), empty_world)"
proof -
  have d: "isBloodDonor (destructure scenario_D_body) = Bool True"
    "missing_or_empty (bloodGroup (destructure scenario_D_body))"
    "all_required_present (destructure scenario_D_body)"
    by (simp_all add: destructure_scenario_D validation_defs lit_def)
  have i: "isBloodDonor (destructure incomplete_blood_donor_body) = Bool True"
    "missing_or_empty (bloodGroup (destructure incomplete_blood_donor_body))"
    "any_required_missing (destructure incomplete_blood_donor_body)"
    by (simp_all add: destructure_incomplete_blood_donor validation_defs)
  show ?thesis
    using blood_donor_without_blood_group_rejected [OF d(1) d(2), of donors_driver empty_world]
      blood_donor_without_blood_group_rejected [OF i(1) i(2), of donors_driver empty_world]
      d i
    by simp
qed

text \<open>
  C5. Whenever the pool hands out a connection, the handler gives exactly that
  connection back, once, after acquiring it and before it finishes: whether the insert
  succeeds, fails with the duplicate-entry code or fails otherwise, the pool sees the
  acquisition followed by one release and nothing else.
\<close>

theorem connection_released_once:
  assumes "passes_validation b"
    and "pool_getConnection drv (pool_events w) = Inr c"
  shows "pool_events (snd (register_handler drv b w)) = pool_events w @ [Acquired c, Released c]"
proof (cases "connection_query drv c insert_query (insert_values (destructure b)) (database w)")
  case (Pair outcome db)
  show ?thesis
  proof (cases outcome)
    case (Inl e)
    with Pair assms show ?thesis
      by (simp add: register_handler_persist persist_query_failed)
  next
    case (Inr r)
    with Pair assms show ?thesis
      by (simp add: register_handler_persist persist_query_succeeded)
  qed
qed

theorem connection_released_once_witness:
  "passes_validation scenario_A_body
   \<and> pool_events (snd (register_handler donors_driver scenario_A_body empty_world))
       = [Acquired 0, Released 0]
   \<and> pool_events (snd (register_handler donors_driver scenario_A_body registered_world))
       = [Acquired 0, Released 0, Acquired 2, Released 2]
   \<and> pool_events (snd (register_handler (failing_driver (Error None ''Connection lost''))
                          scenario_A_body empty_world))
       = [Acquired 0, Released 0]"
proof -
  have c1: "pool_getConnection donors_driver (pool_events empty_world) = Inr 0"
    by (simp add: donors_driver_def empty_world_def)
  have c2: "pool_getConnection donors_driver (pool_events registered_world) = Inr 2"
    by (simp add: donors_driver_def registered_world_eq)
  have c3: "pool_getConnection (failing_driver (Error None ''Connection lost''))
              (pool_events empty_world) = Inr 0"
    by (simp add: failing_driver_def empty_world_def)
  show ?thesis
    using connection_released_once [OF passes_validation_scenario_A c1]
      connection_released_once [OF passes_validation_scenario_A c2]
      connection_released_once [OF passes_validation_scenario_A c3]
      passes_validation_scenario_A
    by (simp add: empty_world_def registered_world_eq)
qed

text \<open>
  C6. When the request passes validation, the pool hands out a connection and the
  insert resolves with a result header, the answer is 201 with the confirmation message
  and, as donorId, the identifier the storage assigned; an auto-increment identifier is
  positive, and so is the donorId.
\<close>

theorem registration_succeeds:
  assumes "passes_validation b"
    and "pool_getConnection drv (pool_events w) = Inr c"
    and "connection_query drv c insert_query (insert_values (destructure b)) (database w)
           = (Inr r, db)"
    and "0 < insertId r"
  shows "status (fst (register_handler drv b w)) = 201
         \<and> message (body (fst (register_handler drv b w))) = Some ''Registration successful!''
         \<and> donorId (body (fst (register_handler drv b w))) = Some (insertId r)
         \<and> (\<exists>n. donorId (body (fst (register_handler drv b w))) = Some n \<and> 0 < n)"
  using assms by (simp add: register_handler_persist persist_query_succeeded)

theorem registration_succeeds_witness:
  "passes_validation scenario_A_body
   \<and> status (fst (register_handler donors_driver scenario_A_body empty_world)) = 201
   \<and> message (body (fst (register_handler donors_driver scenario_A_body empty_world)))
       = Some ''Registration successful!''
   \<and> donorId (body (fst (register_handler donors_driver scenario_A_body empty_world))) = Some 1"
proof -
  have c: "pool_getConnection donors_driver (pool_events empty_world) = Inr 0"
    by (simp add: donors_driver_def empty_world_def)
  have q: "connection_query donors_driver 0 insert_query
             (insert_values (destructure scenario_A_body)) (database empty_world)
           = (Inr \<lparr>insertId = 1\<rparr>, [insert_values (destructure scenario_A_body)])"
    by (simp add: donors_driver_def donors_query_def empty_world_def insert_values_def
          destructure_scenario_A finalBloodGroup_def organsJson_def json_stringify_def
          is_empty_string_def lit_def)
  have p: "0 < insertId \<lparr>insertId = 1\<rparr>"
    by simp
  show ?thesis
    using registration_succeeds [OF passes_validation_scenario_A c q p]
      passes_validation_scenario_A
    by simp
qed

text \<open>
  C7. When the organs submitted are a sequence of strings, empty or not, the value
  handed to the insert for \<^verbatim>\<open>organs_to_donate\<close> is a JSON text, and decoding that text
  gives back the same strings in the same order.
\<close>

theorem organs_round_trip:
  assumes "organs (destructure b) = Arr (map Str ss)"
  shows "\<exists>t. insert_values (destructure b) ! 7 = Str t \<and> json_parse_string_array t = Some ss"
  using assms
  by (simp add: insert_values_def organsJson_def json_stringify_round_trip
        json_parse_string_array_join del: serialize_json_property.simps)

theorem organs_round_trip_witness:
  "organs (destructure organ_donor_body) = Arr (map Str [lit ''kidney'', lit ''liver''])
   \<and> insert_values (destructure organ_donor_body) ! 7 = Str (lit ''[\"kidney\",\"liver\"]'')
   \<and> json_parse_string_array (lit ''[\"kidney\",\"liver\"]'') = Some [lit ''kidney'', lit ''liver'']
   \<and> organs (destructure scenario_A_body) = Arr (map Str [])
   \<and> insert_values (destructure scenario_A_body) ! 7 = Str (lit ''[]'')
   \<and> json_parse_string_array (lit ''[]'') = Some []"
proof -
  have h1: "organs (destructure organ_donor_body) = Arr (map Str [lit ''kidney'', lit ''liver''])"
    by (simp add: destructure_organ_donor)
  have h2: "organs (destructure scenario_A_body) = Arr (map Str [])"
    by (simp add: destructure_scenario_A)
  have v1: "insert_values (destructure organ_donor_body) ! 7 = Str (lit ''[\"kidney\",\"liver\"]'')"
    by (simp add: destructure_organ_donor insert_values_def organsJson_def json_stringify_def
          quote_json_string_def quote_code_point_def is_leading_surrogate_def
          is_trailing_surrogate_def lit_def)
  have v2: "insert_values (destructure scenario_A_body) ! 7 = Str (lit ''[]'')"
    by (simp add: destructure_scenario_A insert_values_def organsJson_def json_stringify_def
          lit_def)
  show ?thesis
    using organs_round_trip [OF h1] organs_round_trip [OF h2] h1 h2 v1 v2
    by simp
qed

text \<open>
  C8. The health check answers 200 with one fixed message, whatever the request, the
  driver and the world are, and returns the world as it was: it touches neither the
  pool nor the database, and an unreachable database changes nothing.
\<close>

theorem health_check_static:
  "health_handler drv b w
     = (Response 200 (Message_body ''Tohf-e-Hayat Backend (MySQL) is running!''), w)"
  by (simp add: health_handler_def)

text \<open>
  C9. A request that fails either validation rule is answered with status 400 and
  leaves the whole world as it was, the pool included: no connection is acquired. The
  driver is not consulted, since the outcome is the same with any other driver.
\<close>

theorem validation_failure_leaves_pool:
  assumes "\<not> passes_validation b"
  shows "status (fst (register_handler drv b w)) = 400
         \<and> snd (register_handler drv b w) = w
         \<and> pool_events (snd (register_handler drv b w)) = pool_events w
         \<and> register_handler drv b w = register_handler drv' b w"
proof (cases "missing_required_fields (destructure b)")
  case True
  then show ?thesis
    by (simp add: register_handler_required)
next
  case False
  with assms have "missing_blood_group (destructure b)"
    by (simp add: passes_validation_def)
  with False show ?thesis
    by (simp add: register_handler_blood_group)
qed

theorem validation_failure_leaves_pool_witness:
  "\<not> passes_validation scenario_C_body
   \<and> snd (register_handler donors_driver scenario_C_body registered_world) = registered_world
   \<and> \<not> passes_validation scenario_D_body
   \<and> snd (register_handler donors_driver scenario_D_body registered_world) = registered_world
   \<and> register_handler donors_driver scenario_D_body registered_world
       = register_handler unreachable_driver scenario_D_body registered_world"
proof -
  have c: "\<not> passes_validation scenario_C_body"
    by (simp add: validation_defs destructure_scenario_C)
  have d: "\<not> passes_validation scenario_D_body"
    by (simp add: validation_defs destructure_scenario_D)
  show ?thesis
    using validation_failure_leaves_pool [OF c, of donors_driver registered_world donors_driver]
      validation_failure_leaves_pool [OF d, of donors_driver registered_world unreachable_driver]
      c d
    by blast
qed

text \<open>
  C10, as stated. The claim fails: a request that passes validation and has no
  \<^verbatim>\<open>organs\<close> property is registered with status 201 when the insert goes through, and
  a row is stored.
\<close>

theorem omitted_organs_registered:
  "passes_validation bare_body
   \<and> organs (destructure bare_body) = Undefined
   \<and> fst (register_handler donors_driver bare_body empty_world)
       = Response 201 (Registered_body ''Registration successful!'' 1)
   \<and> length (database (snd (register_handler donors_driver bare_body empty_world))) = 1"
  by (simp add: passes_validation_bare destructure_bare bare_registered)

text \<open>
  C10, amended. For a request that passes validation and has no \<^verbatim>\<open>organs\<close> property,
  \<^verbatim>\<open>JSON.stringify\<close> gives \<^verbatim>\<open>undefined\<close>, not the text of an empty array, and the insert is
  run with \<^verbatim>\<open>undefined\<close> as its last parameter; the handler does not reject the request
  itself, and its answer is the one the outcome of that insert gives: 201 with the
  assigned identifier when the insert resolves, 409 or the fixed 500 when the \<^verbatim>\<open>try\<close>
  block throws.
\<close>

theorem omitted_organs_passed_as_undefined:
  assumes "passes_validation b"
    and "organs (destructure b) = Undefined"
  shows "organsJson (destructure b) = Undefined
         \<and> organsJson (destructure b) \<noteq> Str (lit ''[]'')
         \<and> insert_values (destructure b) ! 7 = Undefined
         \<and> register_handler drv b w = persist drv (insert_values (destructure b)) w
         \<and> (\<forall>c r db.
               pool_getConnection drv (pool_events w) = Inr c \<longrightarrow>
               connection_query drv c insert_query (insert_values (destructure b)) (database w)
                 = (Inr r, db) \<longrightarrow>
               fst (register_handler drv b w)
                 = Response 201 (Registered_body ''Registration successful!'' (insertId r)))
         \<and> (\<forall>conn e w1.
               try_block drv (insert_values (destructure b)) w = (conn, Inl e, w1) \<longrightarrow>
               fst (register_handler drv b w) =
                 (if err_code e = Some ''ER_DUP_ENTRY''
                  then Response 409 (Error_body ''This email is already registered.'')
                  else Response 500
                         (Error_body ''An error occurred during registration. Please try again.'')))"
proof -
  have p: "register_handler drv b w = persist drv (insert_values (destructure b)) w"
    using assms(1) by (rule register_handler_persist)
  have v: "organsJson (destructure b) = Undefined"
    using assms(2) by (simp add: organsJson_def json_stringify_def)
  have "insert_values (destructure b) ! 7 = Undefined"
    using v by (simp add: insert_values_def)
  moreover have "fst (persist drv (insert_values (destructure b)) w)
                   = Response 201 (Registered_body ''Registration successful!'' (insertId r))"
    if "pool_getConnection drv (pool_events w) = Inr c"
      and "connection_query drv c insert_query (insert_values (destructure b)) (database w)
             = (Inr r, db)" for c r db
    using that by (simp add: persist_query_succeeded)
  moreover have "fst (persist drv (insert_values (destructure b)) w) =
       (if err_code e = Some ''ER_DUP_ENTRY''
        then Response 409 (Error_body ''This email is already registered.'')
        else Response 500
               (Error_body ''An error occurred during registration. Please try again.''))"
    if "try_block drv (insert_values (destructure b)) w = (conn, Inl e, w1)" for conn e w1
    using that by (simp add: persist_thrown catch_block_response)
  ultimately show ?thesis
    using p v by simp
qed

theorem omitted_organs_passed_as_undefined_witness:
  "passes_validation bare_body
   \<and> organs (destructure bare_body) = Undefined
   \<and> insert_values (destructure bare_body) ! 7 = Undefined
   \<and> pool_getConnection donors_driver (pool_events empty_world) = Inr 0
   \<and> fst (connection_query donors_driver 0 insert_query
             (insert_values (destructure bare_body)) (database empty_world))
       = Inr \<lparr>insertId = 1\<rparr>
   \<and> fst (register_handler donors_driver bare_body empty_world)
       = Response 201 (Registered_body ''Registration successful!'' 1)
   \<and> fst (register_handler (failing_driver (Error (Some ''ER_BAD_NULL_ERROR'') ''Column cannot be null''))
            bare_body empty_world)
       = Response 500 (Error_body ''An error occurred during registration. Please try again.'')"
proof -
  let ?bad = "failing_driver (Error (Some ''ER_BAD_NULL_ERROR'') ''Column cannot be null'')"
  have h: "organs (destructure bare_body) = Undefined"
    by (simp add: destructure_bare)
  have c: "pool_getConnection donors_driver (pool_events empty_world) = Inr 0"
    by (simp add: donors_driver_def empty_world_def)
  have q: "connection_query donors_driver 0 insert_query
             (insert_values (destructure bare_body)) (database empty_world)
           = (Inr \<lparr>insertId = 1\<rparr>,
              [[Str (lit ''Sara Malik''), Str (lit ''sara@example.com''),
                Str (lit ''555-0102''), Null, Str (lit ''Multan''),
                Bool False, Bool True, Null]])"
    by (simp add: donors_driver_def donors_query_def empty_world_def insert_values_def
          destructure_bare finalBloodGroup_def organsJson_def json_stringify_def
          is_empty_string_def)
  have t: "try_block ?bad (insert_values (destructure bare_body)) empty_world
             = (Some 0, Inl (Error (Some ''ER_BAD_NULL_ERROR'') ''Column cannot be null''),
                empty_world\<lparr>pool_events := [Acquired 0]\<rparr>)"
    by (rule failing_try_block)
  note good = omitted_organs_passed_as_undefined
                [OF passes_validation_bare h, of donors_driver empty_world]
  note bad = omitted_organs_passed_as_undefined [OF passes_validation_bare h, of ?bad empty_world]
  have "fst (register_handler donors_driver bare_body empty_world)
          = Response 201 (Registered_body ''Registration successful!'' (insertId \<lparr>insertId = 1\<rparr>))"
    using good c q by blast
  then have ok: "fst (register_handler donors_driver bare_body empty_world)
                   = Response 201 (Registered_body ''Registration successful!'' 1)"
    by simp
  have "fst (register_handler ?bad bare_body empty_world) =
          (if err_code (Error (Some ''ER_BAD_NULL_ERROR'') ''Column cannot be null'')
                = Some ''ER_DUP_ENTRY''
           then Response 409 (Error_body ''This email is already registered.'')
           else Response 500
                  (Error_body ''An error occurred during registration. Please try again.''))"
    using bad t by blast
  then have ko: "fst (register_handler ?bad bare_body empty_world)
              = Response 500 (Error_body ''An error occurred during registration. Please try again.'')"
    by simp
  have "insert_values (destructure bare_body) ! 7 = Undefined"
    using good by blast
  then show ?thesis
    using passes_validation_bare h c q ok ko by simp
qed

end
